theory Spec2Isabelle
  imports Complex_Main "HOL-Library.Sublist" "HOL-Library.Char_ord" "HOL-Library.List_Lexorder"
begin

section \<open>Python values used by movie_recommender.py\<close>

text \<open>
  Strings are \<^typ>\<open>string\<close>. The model covers ASCII text: \<open>str.lower\<close> maps the 26
  capital letters to their small counterparts and leaves every other character alone.
  Similarity scores are floating-point numbers in the source; the model computes them
  over \<^typ>\<open>real\<close>, that is, in exact arithmetic.
\<close>

datatype py_exception = ValueError | IndexError | ReError

definition lower_char :: "char \<Rightarrow> char" where
  "lower_char c =
     (case map_of (zip ''ABCDEFGHIJKLMNOPQRSTUVWXYZ'' ''abcdefghijklmnopqrstuvwxyz'') c of
        None \<Rightarrow> c
      | Some d \<Rightarrow> d)"

definition lower :: "string \<Rightarrow> string" where
  "lower s = map lower_char s"

definition is_alnum :: "char \<Rightarrow> bool" where
  "is_alnum c \<longleftrightarrow>
     c \<in> set ''abcdefghijklmnopqrstuvwxyzABCDEFGHIJKLMNOPQRSTUVWXYZ0123456789''"

section \<open>The regular expressions of \<open>Series.str.contains\<close>\<close>

text \<open>
  \<open>Series.str.contains(pat, na=False)\<close> is called with its default \<open>regex=True\<close>:
  pandas compiles \<open>pat\<close> with \<open>re.compile\<close> once and keeps the rows where
  \<open>re.search\<close> finds a match. The model covers a fragment of the pattern language of
  \<open>re\<close>: ordinary characters, the dot, a backslash before a character that is neither a
  letter nor a digit, and one of the postfix operators \<open>*\<close>, \<open>+\<close>, \<open>?\<close> after such
  an atom. Two ways in which \<open>re.compile\<close> raises \<open>re.error\<close> are covered: a postfix
  operator at the start of the pattern (nothing to repeat) and a backslash at its end (bad
  escape). What \<open>re\<close> does with any other pattern (groups, classes, anchors, braces,
  alternation, letter escapes, stacked operators) is a parameter of the model, the
  \<open>regex_lib\<close> argument below, so that every theorem holds whatever \<open>re\<close> does there.
\<close>

datatype atom = Lit char | AnyChar

datatype quant = One | Opt | Star | Plus

datatype token = TAtom atom | TQuant quant | TOutside | TBadEscape

type_synonym pattern = "(atom \<times> quant) list"

datatype parse_result = Compiled pattern | BadPattern | Outside

definition token_of :: "char \<Rightarrow> token" where
  "token_of c =
     (if c = CHR ''.'' then TAtom AnyChar
      else if c = CHR ''*'' then TQuant Star
      else if c = CHR ''+'' then TQuant Plus
      else if c = CHR ''?'' then TQuant Opt
      else if c \<in> set [CHR ''^'', CHR ''$'', CHR ''{'', CHR ''}'', CHR ''['', CHR '']'',
                        CHR ''|'', CHR ''('', CHR '')''] then TOutside
      else TAtom (Lit c))"

fun tokens :: "string \<Rightarrow> token list" where
  "tokens [] = []"
| "tokens [c] = (if c = CHR 0x5C then [TBadEscape] else [token_of c])"
| "tokens (c # d # cs) =
     (if c = CHR 0x5C
      then (if is_alnum d then TOutside else TAtom (Lit d)) # tokens cs
      else token_of c # tokens (d # cs))"

definition cons_item :: "atom \<times> quant \<Rightarrow> parse_result \<Rightarrow> parse_result" where
  "cons_item it r = (case r of Compiled p \<Rightarrow> Compiled (it # p) | BadPattern \<Rightarrow> BadPattern
                     | Outside \<Rightarrow> Outside)"

fun items :: "token list \<Rightarrow> parse_result" where
  "items [] = Compiled []"
| "items (TAtom a # TQuant q # TQuant q' # ts) = Outside"
| "items (TAtom a # TQuant q # ts) = cons_item (a, q) (items ts)"
| "items (TAtom a # ts) = cons_item (a, One) (items ts)"
| "items (TQuant q # ts) = BadPattern"
| "items (TOutside # ts) = Outside"
| "items (TBadEscape # ts) = BadPattern"

definition parse :: "string \<Rightarrow> parse_result" where
  "parse pat = items (tokens pat)"

fun atom_ok :: "atom \<Rightarrow> char \<Rightarrow> bool" where
  "atom_ok (Lit d) c \<longleftrightarrow> c = d"
| "atom_ok AnyChar c \<longleftrightarrow> c \<noteq> CHR 0x0A"

text \<open>\<open>match_here p s\<close>: the pattern matches a prefix of \<open>s\<close> (\<open>re.match\<close>).\<close>

fun match_here :: "pattern \<Rightarrow> string \<Rightarrow> bool" where
  "match_here [] s \<longleftrightarrow> True"
| "match_here ((a, One) # p) s \<longleftrightarrow>
     (case s of [] \<Rightarrow> False | c # cs \<Rightarrow> atom_ok a c \<and> match_here p cs)"
| "match_here ((a, Opt) # p) s \<longleftrightarrow>
     (case s of [] \<Rightarrow> False | c # cs \<Rightarrow> atom_ok a c \<and> match_here p cs) \<or> match_here p s"
| "match_here ((a, Star) # p) s \<longleftrightarrow>
     (case s of [] \<Rightarrow> False | c # cs \<Rightarrow> atom_ok a c \<and> match_here ((a, Star) # p) cs)
     \<or> match_here p s"
| "match_here ((a, Plus) # p) s \<longleftrightarrow>
     (case s of [] \<Rightarrow> False | c # cs \<Rightarrow> atom_ok a c \<and> match_here ((a, Star) # p) cs)"

text \<open>\<open>re_search p s\<close>: the pattern matches at some position of \<open>s\<close> (\<open>re.search\<close>).\<close>

fun re_search :: "pattern \<Rightarrow> string \<Rightarrow> bool" where
  "re_search p [] \<longleftrightarrow> match_here p []"
| "re_search p (c # cs) \<longleftrightarrow> match_here p (c # cs) \<or> re_search p cs"

type_synonym regex_lib = "string \<Rightarrow> py_exception + (string \<Rightarrow> bool)"

definition re_compile :: "regex_lib \<Rightarrow> string \<Rightarrow> py_exception + (string \<Rightarrow> bool)" where
  "re_compile re pat =
     (case parse pat of
        Compiled p \<Rightarrow> Inr (re_search p)
      | BadPattern \<Rightarrow> Inl ReError
      | Outside \<Rightarrow> re pat)"

text \<open>
  \<open>str_contains re pat col\<close> is \<open>col.str.contains(pat, na=False)\<close>: the pattern is
  compiled before any row is looked at, so a bad pattern raises on an empty column too.
\<close>

definition str_contains :: "regex_lib \<Rightarrow> string \<Rightarrow> string list \<Rightarrow> py_exception + bool list" where
  "str_contains re pat col =
     (case re_compile re pat of Inl e \<Rightarrow> Inl e | Inr f \<Rightarrow> Inr (map f col))"

section \<open>RecommendationWorker\<close>

text \<open>
  A row of the data frame: the title and the four feature columns. A feature is \<open>None\<close>
  where the CSV cell is missing (NaN). Titles are taken to be present. The frame keeps the
  default index of \<open>read_csv\<close>, so the index label of a row is its position.
\<close>

record movie =
  title :: string
  keywords_col :: "string option"
  cast_col :: "string option"
  genres_col :: "string option"
  director_col :: "string option"

text \<open>
  The two data fields of \<open>MovieRecommenderGUI\<close>. A worker is created with references
  to both and with the title typed in.
\<close>

record gui =
  df :: "movie list"
  cosine_sim :: "real list list"

record worker = gui +
  movie_title :: string

text \<open>The two signals of the worker; \<open>error\<close> carries one of two messages.\<close>

datatype signal =
    Finished "(string \<times> real) list"
  | Error_not_found string
  | Error_occurred py_exception

text \<open>\<open>df[mask]\<close>: the rows where the mask \<open>flags\<close> holds, each with its index label.\<close>

definition select_rows :: "bool list \<Rightarrow> 'a list \<Rightarrow> (nat \<times> 'a) list" where
  "select_rows flags rows = map snd (filter fst (zip flags (List.enumerate 0 rows)))"

text \<open>
  Lines 31 to 43 of \<open>run\<close>: the index of the movie, \<open>Inl\<close> the signal emitted when
  there is none.
\<close>

definition resolve :: "regex_lib \<Rightarrow> string \<Rightarrow> movie list \<Rightarrow> signal + nat" where
  "resolve re q rows =
     (let titles = map (\<lambda>r. lower (title r)) rows;
          movie_matches = select_rows (map (\<lambda>t. t = lower q) titles) rows
      in case (if movie_matches = []
               then (case str_contains re (lower q) titles of
                       Inl e \<Rightarrow> Inl e
                     | Inr flags \<Rightarrow> Inr (select_rows flags rows))
               else Inr movie_matches) of
           Inl e \<Rightarrow> Inl (Error_occurred e)
         | Inr [] \<Rightarrow> Inl (Error_not_found q)
         | Inr (m # _) \<Rightarrow> Inr (fst m))"

text \<open>
  \<open>sorted(similar_movies, key=lambda x: x[1], reverse=True)\<close>: Python's sort is stable,
  also with \<open>reverse=True\<close>, so this is the stable sort on the negated score.
\<close>

definition sorted_reverse :: "(nat \<times> real) list \<Rightarrow> (nat \<times> real) list" where
  "sorted_reverse xs = sort_key (\<lambda>x. - snd x) xs"

text \<open>
  The loop of lines 52 to 61, with \<open>recommendations\<close> and \<open>count\<close> as accumulators.
  \<open>df.iloc[i]\<close> raises IndexError beyond the last row.
\<close>

fun top_loop :: "movie list \<Rightarrow> nat \<Rightarrow> (nat \<times> real) list \<Rightarrow> (string \<times> real) list \<Rightarrow> nat
                 \<Rightarrow> py_exception + (string \<times> real) list" where
  "top_loop rows movie_index [] recommendations count = Inr recommendations"
| "top_loop rows movie_index (m # ms) recommendations count =
     (if fst m \<noteq> movie_index
      then (if fst m < length rows
            then (let recommendations' = recommendations @ [(title (rows ! fst m), snd m)];
                      count' = count + 1
                  in if count' \<ge> 20 then Inr recommendations'
                     else top_loop rows movie_index ms recommendations' count')
            else Inl IndexError)
      else top_loop rows movie_index ms recommendations count)"

text \<open>Lines 46 to 63 of \<open>run\<close>, for the index found.\<close>

definition rank :: "worker \<Rightarrow> nat \<Rightarrow> signal" where
  "rank w movie_index =
     (if movie_index < length (cosine_sim w)
      then (let similar_movies = List.enumerate 0 (cosine_sim w ! movie_index);
                sorted_similar_movies = sorted_reverse similar_movies
            in case top_loop (df w) movie_index sorted_similar_movies [] 0 of
                 Inl e \<Rightarrow> Error_occurred e
               | Inr recommendations \<Rightarrow> Finished recommendations)
      else Error_occurred IndexError)"

text \<open>
  \<open>run\<close> returns the worker after the call and the signal it emitted. The source never
  assigns to \<open>self.df\<close> or \<open>self.cosine_sim\<close>, and the pandas and numpy operations it
  calls (mask selection, \<open>str.lower\<close>, \<open>str.contains\<close>, \<open>iloc\<close>, row indexing) build new
  objects.
\<close>

definition run :: "regex_lib \<Rightarrow> worker \<Rightarrow> worker \<times> signal" where
  "run re w =
     (case resolve re (movie_title w) (df w) of
        Inl s \<Rightarrow> (w, s)
      | Inr movie_index \<Rightarrow> (w, rank w movie_index))"

section \<open>MovieRecommenderGUI.load_and_process_data\<close>

definition fillna :: "string option \<Rightarrow> string option" where
  "fillna v = (case v of None \<Rightarrow> Some [] | Some t \<Rightarrow> Some t)"

definition fill_features :: "movie \<Rightarrow> movie" where
  "fill_features r =
     r\<lparr>keywords_col := fillna (keywords_col r), cast_col := fillna (cast_col r),
       genres_col := fillna (genres_col r), director_col := fillna (director_col r)\<rparr>"

text \<open>\<open>str(v)\<close> of a cell: a missing cell prints as \<open>nan\<close>.\<close>

definition str_cell :: "string option \<Rightarrow> string" where
  "str_cell v = (case v of None \<Rightarrow> ''nan'' | Some t \<Rightarrow> t)"

definition combine_features :: "movie \<Rightarrow> string" where
  "combine_features row =
     str_cell (keywords_col row) @ '' '' @ str_cell (cast_col row) @ '' '' @
     str_cell (genres_col row) @ '' '' @ str_cell (director_col row)"

text \<open>
  \<open>CountVectorizer()\<close> with its defaults: the text is lower-cased and cut into the
  maximal runs of word characters that have two characters or more (the token pattern
  \<open>\b\w\w+\b\<close>); the vocabulary is the sorted list of distinct tokens;
  \<open>fit_transform\<close> raises ValueError (empty vocabulary) when there is no token at all.
\<close>

definition is_word_char :: "char \<Rightarrow> bool" where
  "is_word_char c \<longleftrightarrow> is_alnum c \<or> c = CHR ''_''"

fun word_runs :: "string \<Rightarrow> string \<Rightarrow> string list" where
  "word_runs [] cur = (if cur = [] then [] else [cur])"
| "word_runs (c # cs) cur =
     (if is_word_char c then word_runs cs (cur @ [c])
      else (if cur = [] then [] else [cur]) @ word_runs cs [])"

definition analyze :: "string \<Rightarrow> string list" where
  "analyze doc = filter (\<lambda>t. 2 \<le> length t) (word_runs (lower doc) [])"

definition vocabulary :: "string list \<Rightarrow> string list" where
  "vocabulary docs = sort (remdups (concat (map analyze docs)))"

definition fit_transform :: "string list \<Rightarrow> py_exception + nat list list" where
  "fit_transform docs =
     (let vocab = vocabulary docs
      in if vocab = [] then Inl ValueError
         else Inr (map (\<lambda>doc. map (\<lambda>t. count_list (analyze doc) t) vocab) docs))"

text \<open>
  \<open>sklearn.metrics.pairwise.cosine_similarity(X)\<close>: every row is divided by its Euclidean
  norm, a norm of 0 being replaced by 1, and the result is multiplied with its transpose.
  (Recent versions of scikit-learn also replace a norm below ten machine epsilons; the norm
  of a row of counts is 0 or at least 1.) The source computes in 64-bit floating point and
  the model in exact arithmetic, so the model says nothing about rounding: in the source
  the score of two equal rows can differ from 1 in the last place.
\<close>

definition l2_norm :: "nat list \<Rightarrow> real" where
  "l2_norm row = sqrt (\<Sum>v\<leftarrow>row. (real v)\<^sup>2)"

definition handle_zeros_in_scale :: "real \<Rightarrow> real" where
  "handle_zeros_in_scale scale = (if scale = 0 then 1 else scale)"

definition normalize_row :: "nat list \<Rightarrow> real list" where
  "normalize_row row =
     (let norm = handle_zeros_in_scale (l2_norm row) in map (\<lambda>v. real v / norm) row)"

definition dot :: "real list \<Rightarrow> real list \<Rightarrow> real" where
  "dot xs ys = (\<Sum>(x, y)\<leftarrow>zip xs ys. x * y)"

definition cosine_similarity :: "nat list list \<Rightarrow> real list list" where
  "cosine_similarity X =
     (let Xn = map normalize_row X in map (\<lambda>a. map (\<lambda>b. dot a b) Xn) Xn)"

text \<open>
  The two handlers of \<open>load_and_process_data\<close>; both show a message box and leave with
  \<open>sys.exit(1)\<close>. The second one is the catch-all \<open>except Exception\<close>.
\<close>

datatype startup_error = Exit_file_not_found | Exit_error_loading py_exception

text \<open>
  The argument is what \<open>read_csv\<close> gives: \<open>None\<close> when it raises FileNotFoundError, the
  rows of the file otherwise. The column \<open>combined_features\<close> is only read by the
  vectorizer and is not kept in the model of the frame.
\<close>

definition load_and_process_data :: "movie list option \<Rightarrow> startup_error + gui" where
  "load_and_process_data csv =
     (case csv of
        None \<Rightarrow> Inl Exit_file_not_found
      | Some rows \<Rightarrow>
          (let filled = map fill_features rows
           in case fit_transform (map combine_features filled) of
                Inl e \<Rightarrow> Inl (Exit_error_loading e)
              | Inr count_matrix \<Rightarrow>
                  Inr \<lparr>df = filled, cosine_sim = cosine_similarity count_matrix\<rparr>))"

text \<open>
  Lines 288 to 291 of \<open>get_recommendations\<close>: a worker is made from the title and the
  two fields and is started. The result is the two fields after the call and the signal.
\<close>

definition recommend :: "regex_lib \<Rightarrow> gui \<Rightarrow> string \<Rightarrow> gui \<times> signal" where
  "recommend re g q =
     (let (w, s) = run re \<lparr>df = df g, cosine_sim = cosine_sim g, movie_title = q\<rparr>
      in (\<lparr>df = df w, cosine_sim = cosine_sim w\<rparr>, s))"

section \<open>Notions used in the statements\<close>

text \<open>
  The pairs (index, score) that the loop of \<open>run\<close> appends for the movie at
  \<open>movie_index\<close>, before the title is looked up: the first 20 pairs of the sorted list
  whose index is not \<open>movie_index\<close>. Lemma \<open>top_loop_take\<close> proves that the loop
  computes exactly this.
\<close>

definition appended :: "nat \<Rightarrow> (nat \<times> real) list \<Rightarrow> (nat \<times> real) list" where
  "appended movie_index ms = take 20 (filter (\<lambda>m. fst m \<noteq> movie_index) ms)"

definition lookup_title :: "movie list \<Rightarrow> nat \<times> real \<Rightarrow> string \<times> real" where
  "lookup_title rows m = (title (rows ! fst m), snd m)"

definition recommended_rows :: "gui \<Rightarrow> nat \<Rightarrow> (nat \<times> real) list" where
  "recommended_rows g k = appended k (sorted_reverse (List.enumerate 0 (cosine_sim g ! k)))"

text \<open>
  The similarity matrix has one row and one column for every row of the frame, as the
  matrix that \<open>load_and_process_data\<close> builds has (lemma \<open>load_square\<close>).
\<close>

definition square :: "gui \<Rightarrow> bool" where
  "square g \<longleftrightarrow> length (cosine_sim g) = length (df g) \<and>
     (\<forall>row\<in>set (cosine_sim g). length row = length (df g))"

text \<open>
  One behaviour of \<open>re\<close> outside the modelled fragment, for closed examples; no example
  below reaches it.
\<close>

definition unsupported :: regex_lib where
  "unsupported pat = Inl ReError"

text \<open>A row with a title and no feature, for closed examples.\<close>

definition titled :: "string \<Rightarrow> movie" where
  "titled t = \<lparr>title = t, keywords_col = None, cast_col = None, genres_col = None,
               director_col = None\<rparr>"

text \<open>
  The corpus of the scenario in the specification: three movies with genres only.
  \<open>example_gui\<close> is what \<open>load_and_process_data\<close> makes of it (lemma
  \<open>scenario_loaded\<close>).
\<close>

definition genre_row :: "string \<Rightarrow> string \<Rightarrow> movie" where
  "genre_row t g = \<lparr>title = t, keywords_col = None, cast_col = None, genres_col = Some g,
                    director_col = None\<rparr>"

definition scenario :: "movie list" where
  "scenario = [genre_row ''Avatar'' ''Action Adventure'',
               genre_row ''Avengers'' ''Action Adventure'',
               genre_row ''Titanic'' ''Drama Romance'']"

definition example_gui :: gui where
  "example_gui = \<lparr>df = map fill_features scenario,
                   cosine_sim = [[1, 1, 0], [1, 1, 0], [0, 0, 1]]\<rparr>"

text \<open>Two movies with the same title.\<close>

definition twins_gui :: gui where
  "twins_gui = \<lparr>df = [titled ''Avatar'', titled ''Avatar''], cosine_sim = [[1, 1], [1, 1]]\<rparr>"

text \<open>
  Query resolution as the specification words it, for comparison with \<open>resolve\<close>: the
  first row whose lower-cased title is the lower-cased query; failing that, the first row
  whose lower-cased title has the lower-cased query as a contiguous substring; failing
  that, not found.
\<close>

fun first_index :: "('a \<Rightarrow> bool) \<Rightarrow> 'a list \<Rightarrow> nat option" where
  "first_index P [] = None"
| "first_index P (r # rs) = (if P r then Some 0 else map_option Suc (first_index P rs))"

definition spec_resolve :: "string \<Rightarrow> movie list \<Rightarrow> signal + nat" where
  "spec_resolve q rows =
     (case first_index (\<lambda>r. lower (title r) = lower q) rows of
        Some i \<Rightarrow> Inr i
      | None \<Rightarrow>
          (case first_index (\<lambda>r. sublist (lower q) (lower (title r))) rows of
             Some i \<Rightarrow> Inr i
           | None \<Rightarrow> Inl (Error_not_found q)))"

text \<open>A query in which no character is special to \<open>re\<close>.\<close>

definition plain :: "string \<Rightarrow> bool" where
  "plain q \<longleftrightarrow> (\<forall>c\<in>set q. c \<notin> set ''.*+?^${}[]|()'' \<and> c \<noteq> CHR 0x5C)"

lemmas eval_simps = resolve_def select_rows_def str_contains_def re_compile_def parse_def
  token_of_def cons_item_def lower_def lower_char_def titled_def enumerate_eq_zip
  recommend_def run_def rank_def sorted_reverse_def Let_def scenario_def genre_row_def
  fill_features_def fillna_def

section \<open>The loop and the sort\<close>

lemma top_loop_take:
  "\<forall>m\<in>set ms. fst m < length rows \<Longrightarrow> count < 20 \<Longrightarrow>
   top_loop rows k ms recs count =
     Inr (recs @ map (lookup_title rows) (take (20 - count) (filter (\<lambda>m. fst m \<noteq> k) ms)))"
proof (induction ms arbitrary: recs count)
  case Nil
  then show ?case by simp
next
  case (Cons m ms)
  show ?case
  proof (cases "fst m = k")
    case True
    with Cons show ?thesis by simp
  next
    case False
    have lt: "fst m < length rows" using Cons.prems by simp
    show ?thesis
    proof (cases "20 \<le> count + 1")
      case True
      then have "20 - count = Suc 0" using Cons.prems(2) by arith
      with False lt True show ?thesis by (simp add: lookup_title_def Let_def)
    next
      case stop: False
      then have c: "count + 1 < 20" by simp
      have t: "20 - count = Suc (20 - (count + 1))" using c by arith
      have "top_loop rows k ms (recs @ [lookup_title rows m]) (count + 1) =
         Inr ((recs @ [lookup_title rows m]) @
            map (lookup_title rows) (take (20 - (count + 1)) (filter (\<lambda>m. fst m \<noteq> k) ms)))"
        using Cons.IH[OF _ c] Cons.prems(1) by simp
      with False lt stop show ?thesis
        by (simp add: lookup_title_def Let_def t del: One_nat_def)
    qed
  qed
qed

lemma insort_key_by_index:
  fixes f :: "'a \<Rightarrow> 'k::linorder" and ix :: "'a \<Rightarrow> nat"
  assumes "sorted_wrt (\<lambda>a b. f a < f b \<or> (f a = f b \<and> ix a < ix b)) xs"
    and "\<forall>y\<in>set xs. ix x < ix y"
  shows "sorted_wrt (\<lambda>a b. f a < f b \<or> (f a = f b \<and> ix a < ix b)) (insort_key f x xs)"
  using assms
proof (induction xs)
  case Nil
  then show ?case by simp
next
  case (Cons y ys)
  show ?case
  proof (cases "f x \<le> f y")
    case True
    have "\<forall>z\<in>set ys. f y \<le> f z" using Cons.prems(1) by auto
    then have "\<forall>z\<in>set (y # ys). f x \<le> f z" using True by auto
    then have "\<forall>z\<in>set (y # ys). f x < f z \<or> (f x = f z \<and> ix x < ix z)"
      using Cons.prems(2) by (auto simp: le_less)
    with True Cons.prems(1) show ?thesis by simp
  next
    case False
    then have "f y < f x" by simp
    moreover have "sorted_wrt (\<lambda>a b. f a < f b \<or> (f a = f b \<and> ix a < ix b)) (insort_key f x ys)"
      using Cons by simp
    ultimately show ?thesis using False Cons.prems(1) by (auto simp: set_insort_key)
  qed
qed

lemma sort_key_by_index:
  fixes f :: "'a \<Rightarrow> 'k::linorder" and ix :: "'a \<Rightarrow> nat"
  assumes "sorted_wrt (\<lambda>a b. ix a < ix b) xs"
  shows "sorted_wrt (\<lambda>a b. f a < f b \<or> (f a = f b \<and> ix a < ix b)) (sort_key f xs)"
  using assms
proof (induction xs)
  case Nil
  then show ?case by simp
next
  case (Cons x xs)
  then show ?case by (simp add: insort_key_by_index)
qed

lemma enumerate_by_index: "sorted_wrt (\<lambda>a b. fst a < fst b) (List.enumerate n xs)"
proof -
  have "sorted_wrt (<) (map fst (List.enumerate n xs))" by (simp add: strict_sorted_iff[symmetric])
  then show ?thesis unfolding sorted_wrt_map .
qed

lemma sorted_reverse_order:
  "sorted_wrt (\<lambda>a b. snd b < snd a \<or> (snd a = snd b \<and> fst a < fst b))
     (sorted_reverse (List.enumerate 0 row))"
proof -
  have "sorted_wrt (\<lambda>a b. - snd a < - snd b \<or> (- snd a = - snd b \<and> fst a < fst b))
     (sort_key (\<lambda>x. - snd x) (List.enumerate 0 row))"
    by (rule sort_key_by_index) (rule enumerate_by_index)
  then show ?thesis by (simp add: sorted_reverse_def)
qed

lemma select_rows_map:
  "select_rows (map P rows) rows = filter (\<lambda>m. P (snd m)) (List.enumerate 0 rows)"
proof -
  have "zip (map P (map snd es)) es = map (\<lambda>m. (P (snd m), m)) es" for es :: "(nat \<times> 'a) list"
    by (induction es) auto
  from this[of "List.enumerate 0 rows"]
  have "zip (map P rows) (List.enumerate 0 rows) = map (\<lambda>m. (P (snd m), m)) (List.enumerate 0 rows)"
    by simp
  then show ?thesis
    by (simp add: select_rows_def filter_map comp_def)
qed

lemma resolve_unfold:
  "resolve re q rows =
     (case filter (\<lambda>m. lower (title (snd m)) = lower q) (List.enumerate 0 rows) of
        m # _ \<Rightarrow> Inr (fst m)
      | [] \<Rightarrow> (case re_compile re (lower q) of
                 Inl e \<Rightarrow> Inl (Error_occurred e)
               | Inr f \<Rightarrow> (case filter (\<lambda>m. f (lower (title (snd m)))) (List.enumerate 0 rows) of
                             [] \<Rightarrow> Inl (Error_not_found q)
                           | m # _ \<Rightarrow> Inr (fst m))))"
proof -
  have a: "select_rows (map (\<lambda>t. t = lower q) (map (\<lambda>r. lower (title r)) rows)) rows =
        filter (\<lambda>m. lower (title (snd m)) = lower q) (List.enumerate 0 rows)"
    using select_rows_map[of "\<lambda>r. lower (title r) = lower q" rows] by (simp add: comp_def)
  have b: "select_rows (map f (map (\<lambda>r. lower (title r)) rows)) rows =
        filter (\<lambda>m. f (lower (title (snd m)))) (List.enumerate 0 rows)" for f
    using select_rows_map[of "\<lambda>r. f (lower (title r))" rows] by (simp add: comp_def)
  show ?thesis
    unfolding resolve_def Let_def a str_contains_def
    by (simp add: b b[unfolded map_map] split: list.splits sum.splits)
qed

lemma hd_filter_enumerate:
  assumes "filter P (List.enumerate 0 rows) = m # ms"
  shows "fst m < length rows \<and> snd m = rows ! fst m \<and> P m \<and>
         (\<forall>j<fst m. \<not> P (j, rows ! j))"
proof -
  from assms obtain us vs where sp: "List.enumerate 0 rows = us @ m # vs"
    and no: "\<forall>u\<in>set us. \<not> P u" and pm: "P m"
    by (auto simp: filter_eq_Cons_iff)
  have len: "length us < length rows"
    using arg_cong[OF sp, of length] by simp
  have "List.enumerate 0 rows ! length us = m" using sp by simp
  then have m: "m = (length us, rows ! length us)" using len by (simp add: nth_enumerate_eq)
  have "\<not> P (j, rows ! j)" if "j < length us" for j
  proof -
    have "List.enumerate 0 rows ! j = us ! j" using sp that by (simp add: nth_append)
    moreover have "List.enumerate 0 rows ! j = (j, rows ! j)"
      using that len by (simp add: nth_enumerate_eq)
    ultimately show ?thesis using no that by (metis nth_mem)
  qed
  with m len pm show ?thesis by simp
qed

lemma filter_enumerate_Nil:
  "filter P (List.enumerate 0 rows) = [] \<longleftrightarrow> (\<forall>j<length rows. \<not> P (j, rows ! j))"
  by (auto simp: filter_empty_conv in_set_enumerate_eq)

lemma resolve_index: "resolve re q rows = Inr k \<Longrightarrow> k < length rows"
  unfolding resolve_unfold
  by (auto split: list.splits sum.splits dest: hd_filter_enumerate)

lemma run_worker: "fst (run re w) = w"
  by (simp add: run_def split: sum.splits)

lemma recommend_state: "fst (recommend re g q) = g"
  by (simp add: recommend_def run_def split: sum.splits prod.splits)

lemma set_sorted_reverse: "set (sorted_reverse xs) = set xs"
  by (simp add: sorted_reverse_def)

lemma rank_rows:
  assumes "k < length (cosine_sim w)" "length (cosine_sim w ! k) \<le> length (df w)"
  shows "rank w k = Finished (map (lookup_title (df w))
           (appended k (sorted_reverse (List.enumerate 0 (cosine_sim w ! k)))))"
proof -
  have "\<forall>m\<in>set (sorted_reverse (List.enumerate 0 (cosine_sim w ! k))). fst m < length (df w)"
    using assms(2) by (auto simp: set_sorted_reverse in_set_enumerate_eq)
  from top_loop_take[OF this, of 0 k "[]"] assms(1) show ?thesis
    by (simp add: rank_def appended_def)
qed

lemma recommend_rows:
  assumes "square g" "resolve re q (df g) = Inr k"
  shows "snd (recommend re g q) = Finished (map (lookup_title (df g)) (recommended_rows g k))"
proof -
  have k: "k < length (df g)" using assms(2) by (rule resolve_index)
  then have "k < length (cosine_sim g)" "length (cosine_sim g ! k) \<le> length (df g)"
    using assms(1) by (auto simp: square_def)
  then have "rank \<lparr>df = df g, cosine_sim = cosine_sim g, movie_title = q\<rparr> k =
        Finished (map (lookup_title (df g)) (recommended_rows g k))"
    using rank_rows[of k "\<lparr>df = df g, cosine_sim = cosine_sim g, movie_title = q\<rparr>"]
    by (simp add: recommended_rows_def)
  with assms(2) show ?thesis by (simp add: recommend_def run_def)
qed

lemma length_filter_neq_upt: "k < n \<Longrightarrow> length (filter (\<lambda>i. i \<noteq> k) [0..<n]) = n - 1"
proof (induction n)
  case 0
  then show ?case by simp
next
  case (Suc n)
  show ?case
  proof (cases "k = n")
    case True
    then have "filter (\<lambda>i. i \<noteq> k) [0..<n] = [0..<n]" by (auto simp: filter_id_conv)
    with True show ?thesis by simp
  next
    case False
    with Suc have "length (filter (\<lambda>i. i \<noteq> k) [0..<n]) = n - 1" and "0 < n" by auto
    with False show ?thesis by simp
  qed
qed

lemma length_recommended_rows:
  assumes "k < length row"
  shows "length (appended k (sorted_reverse (List.enumerate 0 row))) = min 20 (length row - 1)"
proof -
  have "length (filter (\<lambda>m. fst m \<noteq> k) (sorted_reverse (List.enumerate 0 row))) =
        length (filter (\<lambda>m. fst m \<noteq> k) (List.enumerate 0 row))"
    by (simp add: sorted_reverse_def filter_sort)
  also have "\<dots> = length (filter (\<lambda>i. i \<noteq> k) (map fst (List.enumerate 0 row)))"
    unfolding filter_map comp_def by simp
  also have "\<dots> = length row - 1" using assms by (simp add: length_filter_neq_upt)
  finally show ?thesis by (simp add: appended_def)
qed

lemma resolve_first:
  assumes "i < length rows" "\<forall>j<i. lower (title (rows ! j)) \<noteq> lower (title (rows ! i))"
  shows "resolve re (title (rows ! i)) rows = Inr i"
proof -
  let ?P = "\<lambda>m :: nat \<times> movie. lower (title (snd m)) = lower (title (rows ! i))"
  have "filter ?P (List.enumerate 0 rows) \<noteq> []"
    using assms(1) by (auto simp: filter_enumerate_Nil)
  then obtain m ms where f: "filter ?P (List.enumerate 0 rows) = m # ms"
    by (cases "filter ?P (List.enumerate 0 rows)") auto
  from hd_filter_enumerate[OF f]
  have m: "snd m = rows ! fst m" "?P m" "\<forall>j<fst m. \<not> ?P (j, rows ! j)" by auto
  have "\<not> i < fst m" using m(3) by auto
  moreover have "\<not> fst m < i" using m(1,2) assms(2) by auto
  ultimately have "fst m = i" by simp
  with f show ?thesis by (simp add: resolve_unfold)
qed

lemma own_index_not_appended: "k \<notin> fst ` set (appended k ms)"
  by (auto simp: appended_def dest: in_set_takeD)

lemma square_example: "square example_gui"
  by (simp add: square_def example_gui_def scenario_def)

section \<open>Query resolution\<close>

lemma tokens_plain: "plain q \<Longrightarrow> tokens q = map (\<lambda>c. TAtom (Lit c)) q"
  by (induction q rule: tokens.induct) (auto simp: plain_def token_of_def)

lemma items_atoms:
  "items (map (\<lambda>c. TAtom (Lit c)) q) = Compiled (map (\<lambda>c. (Lit c, One)) q)"
proof (induction q)
  case Nil
  then show ?case by simp
next
  case (Cons c q)
  then show ?case by (cases q) (simp_all add: cons_item_def)
qed

lemma parse_plain: "plain q \<Longrightarrow> parse q = Compiled (map (\<lambda>c. (Lit c, One)) q)"
  by (simp add: parse_def tokens_plain items_atoms)

lemma match_here_literal: "match_here (map (\<lambda>c. (Lit c, One)) q) s \<longleftrightarrow> prefix q s"
proof (induction q arbitrary: s)
  case Nil
  then show ?case by simp
next
  case (Cons c q)
  then show ?case by (cases s) auto
qed

lemma re_search_literal: "re_search (map (\<lambda>c. (Lit c, One)) q) s \<longleftrightarrow> sublist q s"
proof (induction s)
  case Nil
  then show ?case by (simp add: match_here_literal)
next
  case (Cons c s)
  then show ?case by (simp add: match_here_literal sublist_Cons_right)
qed

lemma first_index_enumerate:
  "(case filter (\<lambda>m. P (snd m)) (List.enumerate n rows) of [] \<Rightarrow> None | m # _ \<Rightarrow> Some (fst m))
     = map_option (\<lambda>i. i + n) (first_index P rows)"
proof (induction rows arbitrary: n)
  case Nil
  then show ?case by simp
next
  case (Cons r rows)
  show ?case
  proof (cases "P r")
    case True
    then show ?thesis by simp
  next
    case False
    then show ?thesis using Cons[of "Suc n"] by (simp add: option.map_comp comp_def)
  qed
qed

lemma resolve_plain:
  assumes "plain (lower q)"
  shows "resolve re q rows = spec_resolve q rows"
proof -
  have a: "first_index (\<lambda>r. lower (title r) = lower q) rows =
     (case filter (\<lambda>m. lower (title (snd m)) = lower q) (List.enumerate 0 rows) of
        [] \<Rightarrow> None | m # _ \<Rightarrow> Some (fst m))"
    using first_index_enumerate[of "\<lambda>r. lower (title r) = lower q" 0 rows]
    by (simp add: option.map_ident)
  have b: "first_index (\<lambda>r. sublist (lower q) (lower (title r))) rows =
     (case filter (\<lambda>m. sublist (lower q) (lower (title (snd m)))) (List.enumerate 0 rows) of
        [] \<Rightarrow> None | m # _ \<Rightarrow> Some (fst m))"
    using first_index_enumerate[of "\<lambda>r. sublist (lower q) (lower (title r))" 0 rows]
    by (simp add: option.map_ident)
  have c: "re_compile re (lower q) = Inr (re_search (map (\<lambda>c. (Lit c, One)) (lower q)))"
    using assms by (simp add: re_compile_def parse_plain)
  show ?thesis
    unfolding resolve_unfold spec_resolve_def a b c
    by (simp add: re_search_literal split: list.splits)
qed

lemma first_index_Some:
  "first_index P rows = Some i \<longleftrightarrow> i < length rows \<and> P (rows ! i) \<and> (\<forall>j<i. \<not> P (rows ! j))"
proof (induction rows arbitrary: i)
  case Nil
  then show ?case by simp
next
  case (Cons r rows)
  show ?case
  proof (cases "P r")
    case True
    then show ?thesis by (cases i) auto
  next
    case False
    show ?thesis
    proof (cases i)
      case 0
      with False show ?thesis by simp
    next
      case (Suc k)
      with False Cons[of k] show ?thesis
        by (auto simp: less_Suc_eq_0_disj nth_Cons')
    qed
  qed
qed

lemma first_index_None: "first_index P rows = None \<longleftrightarrow> (\<forall>r\<in>set rows. \<not> P r)"
  by (induction rows) auto

section \<open>Similarity\<close>

lemma dot_commute: "dot xs ys = dot ys xs"
proof -
  have "zip ys xs = map (\<lambda>(x, y). (y, x)) (zip xs ys)" by (rule zip_commute)
  then show ?thesis by (simp add: dot_def comp_def case_prod_unfold mult.commute)
qed

lemma cosine_similarity_nth:
  assumes "a < length X" "b < length X"
  shows "cosine_similarity X ! a ! b = dot (normalize_row (X ! a)) (normalize_row (X ! b))"
  using assms by (simp add: cosine_similarity_def Let_def)

lemma vocabulary_empty: "vocabulary docs = [] \<longleftrightarrow> (\<forall>d\<in>set docs. analyze d = [])"
proof -
  have "sort xs = [] \<longleftrightarrow> xs = []" for xs :: "string list"
    using length_sort[of "\<lambda>x. x" xs] by (metis length_0_conv)
  then show ?thesis by (simp add: vocabulary_def)
qed

lemma length_cosine_similarity: "length (cosine_similarity X) = length X"
  by (simp add: cosine_similarity_def Let_def)

lemma row_cosine_similarity: "row \<in> set (cosine_similarity X) \<Longrightarrow> length row = length X"
  by (auto simp: cosine_similarity_def Let_def)

lemma load_result:
  "load_and_process_data (Some rows) =
     (if \<forall>r\<in>set rows. analyze (combine_features (fill_features r)) = []
      then Inl (Exit_error_loading ValueError)
      else Inr \<lparr>df = map fill_features rows,
                cosine_sim = cosine_similarity
                  (map (\<lambda>doc. map (\<lambda>t. count_list (analyze doc) t)
                         (vocabulary (map combine_features (map fill_features rows))))
                     (map combine_features (map fill_features rows)))\<rparr>)"
  by (simp add: load_and_process_data_def fit_transform_def Let_def vocabulary_empty)

lemma load_square: "load_and_process_data csv = Inr g \<Longrightarrow> square g"
proof (cases csv)
  case None
  assume "load_and_process_data csv = Inr g"
  with None show ?thesis by (simp add: load_and_process_data_def)
next
  case (Some rows)
  assume "load_and_process_data csv = Inr g"
  with Some obtain X where g: "g = \<lparr>df = map fill_features rows, cosine_sim = cosine_similarity X\<rparr>"
    and X: "length X = length rows"
    by (auto simp: load_result split: if_splits)
  have "\<forall>row\<in>set (cosine_similarity X). length row = length X"
    by (simp add: row_cosine_similarity)
  with g X show ?thesis by (simp add: square_def length_cosine_similarity)
qed

lemma analyze_blank: "analyze (combine_features (fill_features (titled t))) = []"
  by (simp add: analyze_def combine_features_def fill_features_def titled_def fillna_def
      str_cell_def lower_def lower_char_def is_word_char_def is_alnum_def)


section \<open>The scenario of the specification\<close>

lemma scenario_docs: "map combine_features (map fill_features scenario) =
   [''  Action Adventure '', ''  Action Adventure '', ''  Drama Romance '']"
  by (simp add: scenario_def genre_row_def fill_features_def fillna_def combine_features_def str_cell_def)

lemma analyze_action: "analyze ''  Action Adventure '' = [''action'', ''adventure'']"
  by (simp add: analyze_def lower_def lower_char_def is_word_char_def is_alnum_def)

lemma analyze_drama: "analyze ''  Drama Romance '' = [''drama'', ''romance'']"
  by (simp add: analyze_def lower_def lower_char_def is_word_char_def is_alnum_def)

lemma scenario_vocabulary: "vocabulary [''  Action Adventure '', ''  Action Adventure '', ''  Drama Romance '']
   = [''action'', ''adventure'', ''drama'', ''romance'']"
  by (simp add: vocabulary_def analyze_action analyze_drama less_eq_char_def less_char_def)

lemma scenario_counts: "fit_transform [''  Action Adventure '', ''  Action Adventure '', ''  Drama Romance '']
   = Inr [[1, 1, 0, 0], [1, 1, 0, 0], [0, 0, 1, 1]]"
  by (simp add: fit_transform_def scenario_vocabulary analyze_action analyze_drama Let_def)

lemma scenario_similarity: "cosine_similarity [[1, 1, 0, 0], [1, 1, 0, 0], [0, 0, 1, 1]] = [[1, 1, 0], [1, 1, 0], [0, 0, 1]]"
  by (simp add: cosine_similarity_def normalize_row_def l2_norm_def handle_zeros_in_scale_def dot_def Let_def)

lemma scenario_loaded: "load_and_process_data (Some scenario) =
   Inr example_gui"
proof -
  have f: "fit_transform (map combine_features (map fill_features scenario)) =
      Inr [[1, 1, 0, 0], [1, 1, 0, 0], [0, 0, 1, 1]]"
    by (simp only: scenario_docs scenario_counts)
  show ?thesis
    by (simp only: load_and_process_data_def Let_def option.simps sum.simps f scenario_similarity
        example_gui_def)
qed

section \<open>Resolution of the query\<close>

text \<open>
  C1. Resolution has two stages and the first match wins: the first row whose title is the
  query up to letter case; if there is none, the first row whose title contains the query
  as a substring, up to letter case; if there is none, the not-found message. The source
  does this for every query without a character special to \<open>re\<close> (lemma
  \<open>resolve_plain\<close>). For other queries its second stage is a regular-expression search:
  the query \<open>M*A*S\<close> is a substring of the second title only, and the source selects
  the first.
\<close>

theorem plain_substring_missed:
  "resolve re ''M*A*S'' [titled ''Star Wars'', titled ''M*A*S*H''] = Inr 0 \<and>
   \<not> sublist (lower ''M*A*S'') (lower ''Star Wars'') \<and>
   sublist (lower ''M*A*S'') (lower ''M*A*S*H'') \<and>
   spec_resolve ''M*A*S'' [titled ''Star Wars'', titled ''M*A*S*H''] = Inr 1"
  by (simp add: eval_simps spec_resolve_def sublist_Cons_right)

text \<open>
  C9. The second stage reads the query as a regular expression. The query \<open>Av.tar\<close>
  selects \<open>Avatar\<close>, whose title does not contain it as a substring; the query
  \<open>*batteries\<close> is not a valid pattern, and the call ends with the message for an
  exception, not with the message for a movie that is not found, although the query is a
  substring of a title.
\<close>

theorem contains_is_regex:
  "resolve re ''Av.tar'' [titled ''Titanic'', titled ''Avatar''] = Inr 1 \<and>
   \<not> sublist (lower ''Av.tar'') (lower ''Avatar'') \<and>
   resolve re ''*batteries'' [titled ''Titanic'', titled ''*batteries not included''] =
     Inl (Error_occurred ReError) \<and>
   sublist (lower ''*batteries'') (lower ''*batteries not included'')"
  by (simp add: eval_simps sublist_Cons_right)

text \<open>
  C10. On a frame that has a row, and whose titles are all non-empty, the empty query
  does not end in the message for a movie that is not found: it resolves to row 0 and
  the worker finishes with the recommendations for row 0.
\<close>

theorem empty_query_resolves:
  assumes "square g" "df g \<noteq> []" "\<forall>r\<in>set (df g). title r \<noteq> []"
  shows "resolve re [] (df g) = Inr 0 \<and>
         snd (recommend re g []) = Finished (map (lookup_title (df g)) (recommended_rows g 0)) \<and>
         snd (recommend re g []) \<noteq> Error_not_found []"
proof -
  have "filter (\<lambda>m. lower (title (snd m)) = lower []) (List.enumerate 0 (df g)) = []"
    using assms(3) by (auto simp: filter_empty_conv in_set_enumerate_eq lower_def)
  moreover have "re_compile re (lower []) = Inr (re_search [])"
    by (simp add: re_compile_def parse_def lower_def)
  moreover have "re_search [] s" for s by (cases s) simp_all
  moreover obtain r rs where "df g = r # rs" using assms(2) by (cases "df g") auto
  ultimately have r: "resolve re [] (df g) = Inr 0" by (simp add: resolve_unfold)
  from recommend_rows[OF assms(1) r] r show ?thesis by simp
qed

theorem empty_query_resolves_witness:
  "square example_gui \<and> df example_gui \<noteq> [] \<and>
   map title (df example_gui) = [''Avatar'', ''Avengers'', ''Titanic''] \<and>
   resolve unsupported [] (df example_gui) = Inr 0 \<and>
   snd (recommend unsupported example_gui []) = Finished [(''Avengers'', 1), (''Titanic'', 0)]"
proof -
  have a: "df example_gui \<noteq> []" and b: "\<forall>r\<in>set (df example_gui). title r \<noteq> []"
    by (simp_all add: example_gui_def eval_simps)
  have "map (lookup_title (df example_gui)) (recommended_rows example_gui 0) =
        [(''Avengers'', 1), (''Titanic'', 0)]"
    by (simp add: example_gui_def recommended_rows_def appended_def lookup_title_def eval_simps)
  moreover have "map title (df example_gui) = [''Avatar'', ''Avengers'', ''Titanic'']"
    by (simp add: example_gui_def eval_simps)
  ultimately show ?thesis
    using empty_query_resolves[OF square_example a b, of unsupported] square_example a by simp
qed

section \<open>The similarity matrix\<close>

text \<open>
  C6. In exact arithmetic the similarity matrix is symmetric: the score of rows a and b
  is the score of rows b and a.
\<close>

theorem cosine_symmetric:
  assumes "a < length X" "b < length X" "a \<noteq> b"
  shows "cosine_similarity X ! a ! b = cosine_similarity X ! b ! a"
  by (simp add: cosine_similarity_nth[OF assms(1,2)] cosine_similarity_nth[OF assms(2,1)]
      dot_commute[of "normalize_row (X ! a)"])

theorem cosine_symmetric_witness:
  "(0::nat) < length [[1, 1, 0, 0], [1, 1, 0, 0], [0, 0, 1, 1::nat]] \<and>
   (1::nat) < length [[1, 1, 0, 0], [1, 1, 0, 0], [0, 0, 1, 1::nat]] \<and> (0::nat) \<noteq> 1 \<and>
   cosine_similarity [[1, 1, 0, 0], [1, 1, 0, 0], [0, 0, 1, 1]] ! 0 ! 1 =
   cosine_similarity [[1, 1, 0, 0], [1, 1, 0, 0], [0, 0, 1, 1]] ! 1 ! 0"
  using cosine_symmetric[of 0 "[[1, 1, 0, 0], [1, 1, 0, 0], [0, 0, 1, 1]]" 1] by simp

section \<open>Start-up\<close>

text \<open>
  C7, as amended. On a file without rows \<open>load_and_process_data\<close> leaves through its
  catch-all handler, with the ValueError of the vectorizer (empty vocabulary). It leaves
  in the same way exactly when no row gives a token, so the error does not tell an empty
  file from any other file without tokens.
\<close>

theorem empty_corpus_error:
  "load_and_process_data (Some []) = Inl (Exit_error_loading ValueError) \<and>
   (load_and_process_data (Some rows) = Inl (Exit_error_loading ValueError) \<longleftrightarrow>
      (\<forall>r\<in>set rows. analyze (combine_features (fill_features r)) = []))"
  by (simp add: load_result)

theorem empty_corpus_error_witness:
  "analyze (combine_features (fill_features (titled ''Avatar''))) = [] \<and>
   load_and_process_data (Some [titled ''Avatar'']) = Inl (Exit_error_loading ValueError)"
  using empty_corpus_error[of "[titled ''Avatar'']"] by (simp add: analyze_blank)

text \<open>
  C7 as stated fails: the error for the empty file is the error for a file with one row
  that has a title and no feature.
\<close>

theorem empty_corpus_not_distinct:
  "load_and_process_data (Some []) = Inl (Exit_error_loading ValueError) \<and>
   load_and_process_data (Some [titled ''Avatar'']) = load_and_process_data (Some [])"
  by (simp add: load_result analyze_blank)

section \<open>Ranking\<close>

text \<open>
  C2. For every query that resolves to a movie, the recommendations come in non-increasing
  order of score, and two recommendations with the same score come in the order of their
  rows in the frame. The number of recommendations is the constant 20 of the source.
\<close>

theorem recommended_order:
  assumes "square g" "resolve re q (df g) = Inr k"
  shows "\<exists>recs. snd (recommend re g q) = Finished recs \<and>
           recs = map (lookup_title (df g)) (recommended_rows g k) \<and>
           sorted_wrt (\<lambda>a b. snd b \<le> snd a) recs \<and>
           sorted_wrt (\<lambda>a b. snd b < snd a \<or> (snd a = snd b \<and> fst a < fst b))
             (recommended_rows g k)"
proof -
  let ?R = "\<lambda>a b :: nat \<times> real. snd b < snd a \<or> (snd a = snd b \<and> fst a < fst b)"
  have "sorted_wrt ?R (recommended_rows g k)"
    unfolding recommended_rows_def appended_def
    by (intro sorted_wrt_take sorted_wrt_filter sorted_reverse_order)
  moreover from this have "sorted_wrt (\<lambda>a b. snd b \<le> snd a) (recommended_rows g k)"
    by (rule sorted_wrt_mono_rel[rotated]) auto
  then have "sorted_wrt (\<lambda>a b. snd b \<le> snd a) (map (lookup_title (df g)) (recommended_rows g k))"
    by (simp add: sorted_wrt_map lookup_title_def)
  ultimately show ?thesis using recommend_rows[OF assms] by simp
qed

theorem recommended_order_witness:
  "square example_gui \<and> resolve unsupported ''avatar'' (df example_gui) = Inr 0 \<and>
   snd (recommend unsupported example_gui ''avatar'') =
     Finished [(''Avengers'', 1), (''Titanic'', 0)] \<and>
   (\<exists>recs. snd (recommend unsupported example_gui ''avatar'') = Finished recs \<and>
      sorted_wrt (\<lambda>a b. snd b \<le> snd a) recs)"
proof -
  have r: "resolve unsupported ''avatar'' (df example_gui) = Inr 0"
    by (simp add: example_gui_def eval_simps)
  have v: "snd (recommend unsupported example_gui ''avatar'') =
        Finished [(''Avengers'', 1), (''Titanic'', 0)]"
    by (simp add: example_gui_def eval_simps)
  from recommended_order[OF square_example r] square_example r v show ?thesis by blast
qed

text \<open>
  C3, as amended. The index that the query resolves to is never among the recommended
  rows. A query that is the exact title of a movie resolves to that movie when no earlier
  row has the same title up to letter case; so such a movie is never recommended for
  its own title.
\<close>

theorem resolved_index_excluded:
  assumes "square g"
  shows "(\<forall>q k. resolve re q (df g) = Inr k \<longrightarrow>
            snd (recommend re g q) = Finished (map (lookup_title (df g)) (recommended_rows g k)) \<and>
            k \<notin> fst ` set (recommended_rows g k)) \<and>
         (\<forall>i<length (df g). (\<forall>j<i. lower (title (df g ! j)) \<noteq> lower (title (df g ! i))) \<longrightarrow>
            resolve re (title (df g ! i)) (df g) = Inr i)"
  using assms
  by (simp add: recommend_rows recommended_rows_def own_index_not_appended resolve_first)

theorem resolved_index_excluded_witness:
  "square example_gui \<and> resolve unsupported ''Avengers'' (df example_gui) = Inr 1 \<and>
   1 \<notin> fst ` set (recommended_rows example_gui 1) \<and>
   snd (recommend unsupported example_gui ''Avengers'') =
     Finished (map (lookup_title (df example_gui)) (recommended_rows example_gui 1))"
proof -
  have r: "resolve unsupported ''Avengers'' (df example_gui) = Inr 1"
    by (simp add: example_gui_def eval_simps)
  from resolved_index_excluded[OF square_example, of unsupported] r square_example
  show ?thesis by blast
qed

text \<open>
  C3 as stated fails where two rows share a title: the query \<open>Avatar\<close> is the exact
  title of row 1, it resolves to row 0, and row 1 is recommended.
\<close>

theorem same_title_recommended:
  "square twins_gui \<and> title (df twins_gui ! 1) = ''Avatar'' \<and>
   resolve unsupported ''Avatar'' (df twins_gui) = Inr 0 \<and>
   recommended_rows twins_gui 0 = [(1, 1)] \<and>
   snd (recommend unsupported twins_gui ''Avatar'') = Finished [(''Avatar'', 1)]"
proof -
  have "square twins_gui" by (simp add: square_def twins_gui_def)
  moreover have "title (df twins_gui ! 1) = ''Avatar''" by (simp add: twins_gui_def titled_def)
  moreover have "resolve unsupported ''Avatar'' (df twins_gui) = Inr 0"
    by (simp add: twins_gui_def eval_simps)
  moreover have "recommended_rows twins_gui 0 = [(1, 1)]"
    by (simp add: twins_gui_def recommended_rows_def appended_def eval_simps)
  moreover have "snd (recommend unsupported twins_gui ''Avatar'') = Finished [(''Avatar'', 1)]"
    by (simp add: twins_gui_def eval_simps)
  ultimately show ?thesis by blast
qed

text \<open>
  C4. For every query that resolves to a movie, on a frame of n rows, there are
  min(20, n - 1) recommendations: at most 20, and none exactly when the frame has one
  row, in which case the worker finishes with the empty list.
\<close>

theorem result_length:
  assumes "square g" "resolve re q (df g) = Inr k"
  shows "\<exists>recs. snd (recommend re g q) = Finished recs \<and>
           length recs = min 20 (length (df g) - 1) \<and> length recs \<le> 20 \<and>
           (length recs = 0 \<longleftrightarrow> length (df g) = 1)"
proof -
  let ?recs = "map (lookup_title (df g)) (recommended_rows g k)"
  have k: "k < length (df g)" using assms(2) by (rule resolve_index)
  then have "k < length (cosine_sim g ! k)" "length (cosine_sim g ! k) = length (df g)"
    using assms(1) by (auto simp: square_def)
  then have "length (recommended_rows g k) = min 20 (length (df g) - 1)"
    using length_recommended_rows[of k "cosine_sim g ! k"] by (simp add: recommended_rows_def)
  then have len: "length ?recs = min 20 (length (df g) - 1)" by simp
  have pos: "0 < length (df g)" using k by (cases "df g") simp_all
  have le: "length ?recs \<le> 20" using len by simp
  have zero: "length ?recs = 0 \<longleftrightarrow> length (df g) = 1" using len pos by arith
  from recommend_rows[OF assms] len le zero show ?thesis by blast
qed

theorem result_length_witness:
  "square example_gui \<and> resolve unsupported ''titanic'' (df example_gui) = Inr 2 \<and>
   (\<exists>recs. snd (recommend unsupported example_gui ''titanic'') = Finished recs \<and>
      length recs = 2)"
proof -
  have r: "resolve unsupported ''titanic'' (df example_gui) = Inr 2"
    by (simp add: example_gui_def eval_simps)
  have "length (df example_gui) = 3" by (simp add: example_gui_def scenario_def)
  with result_length[OF square_example r] square_example r show ?thesis by auto
qed

section \<open>State\<close>

text \<open>
  C8. A call that ends in an error signal (not found, or any exception) leaves the two
  fields of the window, the frame and the similarity matrix, as they were, and a later
  call gives what it would have given without the failed one.
\<close>

theorem failed_call_keeps_state:
  assumes "snd (recommend re g q) = Error_not_found q \<or> snd (recommend re g q) = Error_occurred e"
  shows "fst (recommend re g q) = g \<and>
         recommend re (fst (recommend re g q)) q' = recommend re g q'"
  by (simp add: recommend_state)

theorem failed_call_keeps_state_witness:
  "snd (recommend unsupported example_gui ''Nonexistent Movie'') =
     Error_not_found ''Nonexistent Movie'' \<and>
   fst (recommend unsupported example_gui ''Nonexistent Movie'') = example_gui \<and>
   recommend unsupported (fst (recommend unsupported example_gui ''Nonexistent Movie''))
     ''avatar'' = recommend unsupported example_gui ''avatar''"
proof -
  have h: "snd (recommend unsupported example_gui ''Nonexistent Movie'') =
        Error_not_found ''Nonexistent Movie''"
    by (simp add: example_gui_def eval_simps)
  from failed_call_keeps_state[of unsupported example_gui "''Nonexistent Movie''" ReError
      "''avatar''"] h
  show ?thesis by blast
qed

end
